theory Spec2Isabelle
  imports Complex_Main "HOL-Library.Log_Nat"
begin

section \<open>Data model\<close>

text \<open>
  Identifiers are MongoDB object ids compared through their string form
  (\<open>_id.toString() === moduleId\<close>); timestamps are the milliseconds of a JavaScript
  \<open>Date\<close>, with \<open>null\<close> as \<open>None\<close>. Counters are natural numbers. A JavaScript number
  is the rational it denotes. The progress percentage goes through \<open>Math.round\<close>, so
  the rounding of the two double operations before it can change the integer returned:
  there the operations are the IEEE 754 ones. The scores of \<open>autoGradeQuiz\<close> and the
  percentage of a grade are not rounded in the code modelled here and are kept exact.
\<close>

type_synonym objectId = string
type_synonym date = nat

subsection \<open>Course: modules and lectures (models/Course.js)\<close>

record lecture =
  lecture_id :: objectId

record courseModule =
  module_id :: objectId
  lectures :: "lecture list"

record course =
  modules :: "courseModule list"

subsection \<open>Progress document (CourseProgress schema)\<close>

record lectureProgress =
  lectureId :: objectId
  lpCompleted :: bool
  lpCompletedAt :: "date option"

record moduleProgress =
  moduleId :: objectId
  mpCompleted :: bool
  mpCompletedAt :: "date option"
  lecturesProgress :: "lectureProgress list"

record progress =
  userId :: objectId
  courseId :: objectId
  modulesProgress :: "moduleProgress list"
  completedLecturesCount :: nat
  totalLecturesCount :: nat
  progressPercentage :: int
  completed :: bool
  completedAt :: "date option"

text \<open>The object returned by \<open>calculateProgressStats\<close>.\<close>

record progressStats =
  stCompletedLecturesCount :: nat
  stTotalLecturesCount :: nat
  stProgressPercentage :: int
  stCompleted :: bool
  stCompletedAt :: "date option"

section \<open>Double arithmetic\<close>

text \<open>
  IEEE 754 binary64 rounding to nearest, ties to even, of a rational in the normal range:
  with \<open>e\<close> the exponent of the value (\<open>2^e \<le> |x| < 2^(e+1)\<close>, computed from the bit
  lengths of numerator and denominator), the value is rounded to a multiple of
  \<open>2^(e-52)\<close>. The JavaScript operators \<open>/\<close> and \<open>*\<close> return the exact result rounded
  in this way.
\<close>

definition roundTiesToEven :: "rat \<Rightarrow> int" where
  "roundTiesToEven y =
     (let n = \<lfloor>y\<rfloor>; r = y - of_int n
      in if r < 1 / 2 then n else if 1 / 2 < r then n + 1 else if even n then n else n + 1)"

definition exponentOf :: "rat \<Rightarrow> int" where
  "exponentOf x =
     (let k = bitlen (fst (quotient_of x)) - bitlen (snd (quotient_of x))
      in if 2 powi k \<le> x then k else k - 1)"

definition toDouble :: "rat \<Rightarrow> rat" where
  "toDouble x =
     (if x = 0 then 0
      else (let ulp = 2 powi (exponentOf \<bar>x\<bar> - 52)
            in sgn x * (ulp * of_int (roundTiesToEven (\<bar>x\<bar> / ulp)))))"

definition jsDivide :: "rat \<Rightarrow> rat \<Rightarrow> rat" where
  "jsDivide x y = toDouble (x / y)"

definition jsTimes :: "rat \<Rightarrow> rat \<Rightarrow> rat" where
  "jsTimes x y = toDouble (x * y)"

section \<open>calculateProgressStats\<close>

text \<open>\<open>Math.round\<close>: the nearest integer, a fraction of exactly one half going up.\<close>

definition Math_round :: "rat \<Rightarrow> int" where
  "Math_round x = \<lfloor>x + 1 / 2\<rfloor>"

text \<open>
  The first \<open>forEach\<close>: \<open>totalLectures += module.lectures.length\<close> over the modules of
  the course.
\<close>

definition countTotalLectures :: "course \<Rightarrow> nat" where
  "countTotalLectures c =
     foldl (\<lambda>totalLectures m. totalLectures + length (lectures m)) 0 (modules c)"

text \<open>
  The nested \<open>forEach\<close>: \<open>completedLectures++\<close> for every lecture entry of every module
  entry of the progress document whose \<open>completed\<close> is set.
\<close>

definition countCompletedLectures :: "progress \<Rightarrow> nat" where
  "countCompletedLectures p =
     foldl (\<lambda>completedLectures mp.
              foldl (\<lambda>n lp. if lpCompleted lp then n + 1 else n)
                    completedLectures (lecturesProgress mp))
           0 (modulesProgress p)"

text \<open>
  The argument \<open>now\<close> is the value of \<open>new Date()\<close> at the call. The two counters are
  below \<open>2^53\<close> and so are doubles themselves.
\<close>

definition calculateProgressStats :: "course \<Rightarrow> progress \<Rightarrow> date \<Rightarrow> progressStats" where
  "calculateProgressStats c p now =
     (let totalLectures = countTotalLectures c;
          completedLectures = countCompletedLectures p;
          percentage =
            (if totalLectures > 0
             then Math_round
                    (jsTimes (jsDivide (of_nat completedLectures) (of_nat totalLectures)) 100)
             else 0);
          courseCompleted = (totalLectures > 0 \<and> completedLectures = totalLectures)
      in \<lparr> stCompletedLecturesCount = completedLectures,
           stTotalLecturesCount = totalLectures,
           stProgressPercentage = percentage,
           stCompleted = courseCompleted,
           stCompletedAt = (if courseCompleted then Some now else None) \<rparr>)"

section \<open>initializeProgress and the progress collection\<close>

text \<open>\<open>Array.prototype.findIndex\<close>, with \<open>-1\<close> as \<open>None\<close>.\<close>

fun findIndex :: "('a \<Rightarrow> bool) \<Rightarrow> 'a list \<Rightarrow> nat option" where
  "findIndex P [] = None"
| "findIndex P (x # xs) = (if P x then Some 0 else map_option Suc (findIndex P xs))"

text \<open>
  The progress collection is the list of its documents. \<open>Progress.findOne({userId,
  courseId})\<close> returns the first document with both fields; \<open>progress.save()\<close> replaces
  the stored document of the same (user, course) pair (the unique index of the schema), or
  inserts the document when there is none.
\<close>

type_synonym progressStore = "progress list"

definition findOne :: "progressStore \<Rightarrow> objectId \<Rightarrow> objectId \<Rightarrow> progress option" where
  "findOne db uid cid = find (\<lambda>d. userId d = uid \<and> courseId d = cid) db"

definition save :: "progressStore \<Rightarrow> progress \<Rightarrow> progressStore" where
  "save db p =
     (case findIndex (\<lambda>d. userId d = userId p \<and> courseId d = courseId p) db of
        None \<Rightarrow> db @ [p]
      | Some i \<Rightarrow> db[i := p])"

definition newLectureProgress :: "objectId \<Rightarrow> lectureProgress" where
  "newLectureProgress lid = \<lparr> lectureId = lid, lpCompleted = False, lpCompletedAt = None \<rparr>"

definition newModuleProgress :: "objectId \<Rightarrow> courseModule \<Rightarrow> moduleProgress" where
  "newModuleProgress mid m =
     \<lparr> moduleId = mid, mpCompleted = False, mpCompletedAt = None,
       lecturesProgress = map (\<lambda>lec. newLectureProgress (lecture_id lec)) (lectures m) \<rparr>"

definition initializeProgress ::
  "progressStore \<Rightarrow> course \<Rightarrow> objectId \<Rightarrow> objectId \<Rightarrow> progress \<times> progressStore" where
  "initializeProgress db c uid cid =
     (let mps = map (\<lambda>m. newModuleProgress (module_id m) m) (modules c);
          totalLectures =
            foldl (\<lambda>totalLectures m. totalLectures + length (lectures m)) 0 (modules c);
          p = \<lparr> userId = uid, courseId = cid, modulesProgress = mps,
                completedLecturesCount = 0, totalLecturesCount = totalLectures,
                progressPercentage = 0, completed = False, completedAt = None \<rparr>
      in (p, save db p))"

text \<open>\<open>let progress = await Progress.findOne(...); if (!progress) progress = await initializeProgress(...)\<close>\<close>

definition getOrCreateProgress ::
  "progressStore \<Rightarrow> course \<Rightarrow> objectId \<Rightarrow> objectId \<Rightarrow> progress \<times> progressStore" where
  "getOrCreateProgress db c uid cid =
     (case findOne db uid cid of
        Some p \<Rightarrow> (p, db)
      | None \<Rightarrow> initializeProgress db c uid cid)"

section \<open>The toggle route\<close>


text \<open>
  \<open>lectureProgress.completed = !lectureProgress.completed\<close>, then
  \<open>completedAt = completed ? new Date() : null\<close>.
\<close>

definition toggleEntry :: "date \<Rightarrow> lectureProgress \<Rightarrow> lectureProgress" where
  "toggleEntry now lp =
     lp\<lparr> lpCompleted := \<not> lpCompleted lp,
         lpCompletedAt := (if \<not> lpCompleted lp then Some now else None) \<rparr>"

text \<open>
  Inside the module entry: find the lecture entry (push a fresh one when there is none),
  toggle it, then recompute the module's \<open>completed\<close> with \<open>every\<close> over the entries
  present.
\<close>

definition toggleInModule :: "objectId \<Rightarrow> date \<Rightarrow> moduleProgress \<Rightarrow> moduleProgress" where
  "toggleInModule lid now mp =
     (let (lps, lectureProgressIndex) =
            (case findIndex (\<lambda>lp. lectureId lp = lid) (lecturesProgress mp) of
               None \<Rightarrow> (lecturesProgress mp @ [newLectureProgress lid],
                         length (lecturesProgress mp))
             | Some j \<Rightarrow> (lecturesProgress mp, j));
          lps' = lps[lectureProgressIndex := toggleEntry now (lps ! lectureProgressIndex)];
          allLecturesCompleted = list_all lpCompleted lps'
      in mp\<lparr> lecturesProgress := lps',
             mpCompleted := allLecturesCompleted,
             mpCompletedAt := (if allLecturesCompleted then Some now else None) \<rparr>)"

text \<open>
  On the progress document: find the module entry (push a mirror of the course module
  when there is none), toggle the lecture inside it, and overwrite the cached fields with
  the result of \<open>calculateProgressStats\<close>.
\<close>

definition toggleLecture ::
  "course \<Rightarrow> courseModule \<Rightarrow> objectId \<Rightarrow> objectId \<Rightarrow> date \<Rightarrow> progress \<Rightarrow> progress" where
  "toggleLecture c m mid lid now p =
     (let (mps, moduleProgressIndex) =
            (case findIndex (\<lambda>mp. moduleId mp = mid) (modulesProgress p) of
               None \<Rightarrow> (modulesProgress p @ [newModuleProgress mid m],
                         length (modulesProgress p))
             | Some i \<Rightarrow> (modulesProgress p, i));
          p' = p\<lparr> modulesProgress :=
                    mps[moduleProgressIndex := toggleInModule lid now (mps ! moduleProgressIndex)] \<rparr>;
          stats = calculateProgressStats c p' now
      in p'\<lparr> completedLecturesCount := stCompletedLecturesCount stats,
             totalLecturesCount := stTotalLecturesCount stats,
             progressPercentage := stProgressPercentage stats,
             completed := stCompleted stats,
             completedAt := stCompletedAt stats \<rparr>)"




section \<open>autoGradeQuiz\<close>

text \<open>
  A student's answer is a JSON value of the request body (\<open>Mixed\<close> in the schema): absent,
  \<open>null\<close>, a number or a string.
\<close>

datatype jsValue = Undefined | Null | Number rat | String string

datatype questionType = MultipleChoice | Written

text \<open>
  A question of the bank; \<open>correctOption\<close> and \<open>points\<close> are \<open>None\<close> when the field is
  not set.
\<close>

record question =
  question_id :: objectId
  qType :: questionType
  correctOption :: "rat option"
  points :: "rat option"

record assignment =
  questions :: "question list"
  totalPoints :: rat

record studentAnswer =
  questionId :: string
  answer :: jsValue

record gradedAnswer =
  gaQuestionId :: string
  gaStudentAnswer :: jsValue
  gaCorrectAnswer :: "rat option"
  gaIsCorrect :: bool
  gaPoints :: rat
  gaEarnedPoints :: rat

record gradingResult =
  grTotalPoints :: rat
  grEarnedPoints :: rat
  grPercentage :: rat
  grGradedAnswers :: "gradedAnswer list"

text \<open>The three variables the grading loop updates.\<close>

record gradingState =
  totalQuestionPoints :: rat
  earnedQuestionPoints :: rat
  gradedAnswers :: "gradedAnswer list"

text \<open>\<open>questionsMap.set(q._id.toString(), q)\<close> for every question, in order.\<close>

definition questionsMap :: "assignment \<Rightarrow> (string \<Rightarrow> question option)" where
  "questionsMap a = foldl (\<lambda>m q. m(question_id q \<mapsto> q)) Map.empty (questions a)"

text \<open>\<open>question.points || 1\<close>: an unset (or zero) value counts as 1.\<close>

definition pointsForQuestion :: "question \<Rightarrow> rat" where
  "pointsForQuestion q = (case points q of None \<Rightarrow> 1 | Some v \<Rightarrow> if v = 0 then 1 else v)"

text \<open>
  \<open>answer !== null && answer !== undefined && answer === question.correctOption\<close>:
  strict equality holds only between a number and the same number.
\<close>

fun isCorrect :: "jsValue \<Rightarrow> rat option \<Rightarrow> bool" where
  "isCorrect (Number x) (Some k) = (x = k)"
| "isCorrect _ _ = False"

text \<open>The body of \<open>studentAnswers.forEach\<close>.\<close>

definition gradeAnswer ::
  "(string \<Rightarrow> question option) \<Rightarrow> gradingState \<Rightarrow> studentAnswer \<Rightarrow> gradingState" where
  "gradeAnswer qm st sa =
     (case qm (questionId sa) of
        None \<Rightarrow> st
      | Some q \<Rightarrow>
          if qType q = MultipleChoice then
            (let pts = pointsForQuestion q;
                 ok = isCorrect (answer sa) (correctOption q)
             in \<lparr> totalQuestionPoints = totalQuestionPoints st + pts,
                  earnedQuestionPoints =
                    (if ok then earnedQuestionPoints st + pts else earnedQuestionPoints st),
                  gradedAnswers = gradedAnswers st @
                    [\<lparr> gaQuestionId = questionId sa,
                       gaStudentAnswer = answer sa,
                       gaCorrectAnswer = correctOption q,
                       gaIsCorrect = ok,
                       gaPoints = pts,
                       gaEarnedPoints = (if ok then pts else 0) \<rparr>] \<rparr>)
          else st)"

definition initialGrading :: gradingState where
  "initialGrading = \<lparr> totalQuestionPoints = 0, earnedQuestionPoints = 0, gradedAnswers = [] \<rparr>"

definition gradeAll :: "assignment \<Rightarrow> studentAnswer list \<Rightarrow> gradingState" where
  "gradeAll a studentAnswers = foldl (gradeAnswer (questionsMap a)) initialGrading studentAnswers"

definition autoGradeQuiz :: "assignment \<Rightarrow> studentAnswer list \<Rightarrow> gradingResult" where
  "autoGradeQuiz a studentAnswers =
     (let st = gradeAll a studentAnswers;
          percentage =
            (if totalQuestionPoints st > 0
             then (earnedQuestionPoints st / totalQuestionPoints st) * 100 else 0);
          scaledEarnedPoints =
            (if totalQuestionPoints st > 0
             then (earnedQuestionPoints st / totalQuestionPoints st) * totalPoints a else 0)
      in \<lparr> grTotalPoints = totalPoints a,
           grEarnedPoints = scaledEarnedPoints,
           grPercentage = percentage,
           grGradedAnswers = gradedAnswers st \<rparr>)"

section \<open>Letter grades\<close>

text \<open>The \<open>grade\<close> object of a submission; a field that is not set is \<open>None\<close>.\<close>

record grade =
  gradePoints :: "rat option"
  gradePercentage :: "rat option"
  letterGrade :: "string option"
  gradedAt :: "date option"
  gradedBy :: "objectId option"

record submission =
  subAssignment :: objectId
  subStudent :: objectId
  subGrade :: "grade option"

text \<open>The helper of the submission routes.\<close>

definition getLetterGrade :: "rat \<Rightarrow> string" where
  "getLetterGrade percentage =
     (if percentage \<ge> 97 then ''A+''
      else if percentage \<ge> 93 then ''A''
      else if percentage \<ge> 90 then ''A-''
      else if percentage \<ge> 87 then ''B+''
      else if percentage \<ge> 83 then ''B''
      else if percentage \<ge> 80 then ''B-''
      else if percentage \<ge> 77 then ''C+''
      else if percentage \<ge> 73 then ''C''
      else if percentage \<ge> 70 then ''C-''
      else if percentage \<ge> 67 then ''D+''
      else if percentage \<ge> 60 then ''D''
      else ''F'')"

text \<open>
  The first \<open>pre('save')\<close> hook of the submission schema: when the submission has a grade
  whose percentage is set, the letter grade is overwritten from the percentage.
\<close>

definition preSaveLetterGrade :: "submission \<Rightarrow> submission" where
  "preSaveLetterGrade s =
     (case subGrade s of
        None \<Rightarrow> s
      | Some g \<Rightarrow>
          (case gradePercentage g of
             None \<Rightarrow> s
           | Some p \<Rightarrow>
               s\<lparr> subGrade := Some (g\<lparr> letterGrade := Some
                   (if p \<ge> 97 then ''A+''
                    else if p \<ge> 93 then ''A''
                    else if p \<ge> 90 then ''A-''
                    else if p \<ge> 87 then ''B+''
                    else if p \<ge> 83 then ''B''
                    else if p \<ge> 80 then ''B-''
                    else if p \<ge> 77 then ''C+''
                    else if p \<ge> 73 then ''C''
                    else if p \<ge> 70 then ''C-''
                    else if p \<ge> 67 then ''D+''
                    else if p \<ge> 60 then ''D''
                    else ''F'') \<rparr>) \<rparr>))"

text \<open>
  The threshold table as the specification lists it, read top-down with the first match
  winning and \<open>F\<close> below every bound.
\<close>

definition letterThresholds :: "(rat \<times> string) list" where
  "letterThresholds =
     [(97, ''A+''), (93, ''A''), (90, ''A-''), (87, ''B+''), (83, ''B''), (80, ''B-''),
      (77, ''C+''), (73, ''C''), (70, ''C-''), (67, ''D+''), (60, ''D'')]"

fun firstMatch :: "(rat \<times> string) list \<Rightarrow> rat \<Rightarrow> string" where
  "firstMatch [] p = ''F''"
| "firstMatch ((bound, letter) # rest) p = (if p \<ge> bound then letter else firstMatch rest p)"

section \<open>Closed forms of the two counters\<close>

text \<open>
  The counters as the specification words them: the sum of the lecture counts of the
  course's modules, and the number of lecture entries of the progress document whose
  \<open>completed\<close> is set.
\<close>

definition lectureTotal :: "course \<Rightarrow> nat" where
  "lectureTotal c = sum_list (map (\<lambda>m. length (lectures m)) (modules c))"

definition completedEntries :: "progress \<Rightarrow> nat" where
  "completedEntries p =
     sum_list (map (\<lambda>mp. length (filter lpCompleted (lecturesProgress mp)))
                   (modulesProgress p))"

section \<open>Example data\<close>

text \<open>A course of two modules with three and five lectures, and a student who has completed one.\<close>

definition exampleCourse :: course where
  "exampleCourse =
     \<lparr> modules = [\<lparr> module_id = ''m1'',
                    lectures = [\<lparr> lecture_id = ''a'' \<rparr>, \<lparr> lecture_id = ''b'' \<rparr>,
                                \<lparr> lecture_id = ''c'' \<rparr>] \<rparr>,
                  \<lparr> module_id = ''m2'',
                    lectures = [\<lparr> lecture_id = ''d'' \<rparr>, \<lparr> lecture_id = ''e'' \<rparr>,
                                \<lparr> lecture_id = ''f'' \<rparr>, \<lparr> lecture_id = ''g'' \<rparr>,
                                \<lparr> lecture_id = ''h'' \<rparr>] \<rparr>] \<rparr>"

definition exampleProgress :: progress where
  "exampleProgress =
     \<lparr> userId = ''u'', courseId = ''c'',
       modulesProgress =
         [\<lparr> moduleId = ''m1'', mpCompleted = False, mpCompletedAt = None,
            lecturesProgress =
              [\<lparr> lectureId = ''a'', lpCompleted = True, lpCompletedAt = Some 5 \<rparr>,
               \<lparr> lectureId = ''b'', lpCompleted = False, lpCompletedAt = None \<rparr>] \<rparr>],
       completedLecturesCount = 1, totalLecturesCount = 8, progressPercentage = 13,
       completed = False, completedAt = None \<rparr>"

text \<open>
  A course of one module with forty lectures, named \<open>x\<close>, \<open>xx\<close>, \<open>xxx\<close> and so on, and
  the progress document of a student who has completed the first twenty-three.
\<close>

definition numberedLectures :: "nat \<Rightarrow> lecture list" where
  "numberedLectures n = map (\<lambda>k. \<lparr> lecture_id = replicate (Suc k) (CHR ''x'') \<rparr>) [0..<n]"

definition fortyLectureCourse :: course where
  "fortyLectureCourse = \<lparr> modules = [\<lparr> module_id = ''m'', lectures = numberedLectures 40 \<rparr>] \<rparr>"

definition twentyThreeCompleted :: progress where
  "twentyThreeCompleted =
     \<lparr> userId = ''u'', courseId = ''c'',
       modulesProgress =
         [\<lparr> moduleId = ''m'', mpCompleted = False, mpCompletedAt = None,
            lecturesProgress =
              map (\<lambda>lec. \<lparr> lectureId = lecture_id lec, lpCompleted = True,
                            lpCompletedAt = Some 1 \<rparr>)
                  (numberedLectures 23) \<rparr>],
       completedLecturesCount = 23, totalLecturesCount = 40, progressPercentage = 57,
       completed = False, completedAt = None \<rparr>"

text \<open>A course with a single lecture, and a progress document in which it is already complete.\<close>

definition completedProgress :: progress where
  "completedProgress =
     \<lparr> userId = ''u'', courseId = ''c'',
       modulesProgress =
         [\<lparr> moduleId = ''m'', mpCompleted = True, mpCompletedAt = Some 3,
            lecturesProgress =
              [\<lparr> lectureId = ''a'', lpCompleted = True, lpCompletedAt = Some 3 \<rparr>] \<rparr>],
       completedLecturesCount = 1, totalLecturesCount = 1, progressPercentage = 100,
       completed = True, completedAt = Some 3 \<rparr>"

definition oneLectureCourse :: course where
  "oneLectureCourse = \<lparr> modules = [\<lparr> module_id = ''m'', lectures = [\<lparr> lecture_id = ''a'' \<rparr>] \<rparr>] \<rparr>"

section \<open>Closed forms of the grading loop\<close>

text \<open>
  The question an answer is graded against, if any: the question stored under the answer's
  identifier, when it is a multiple-choice one. The accumulators as sums over the list of
  answers, and the entry an answer adds to \<open>gradedAnswers\<close>.
\<close>

definition gradedQuestion :: "(string \<Rightarrow> question option) \<Rightarrow> studentAnswer \<Rightarrow> question option" where
  "gradedQuestion qm sa =
     (case qm (questionId sa) of
        None \<Rightarrow> None
      | Some q \<Rightarrow> if qType q = MultipleChoice then Some q else None)"

definition answerPoints :: "(string \<Rightarrow> question option) \<Rightarrow> studentAnswer \<Rightarrow> rat" where
  "answerPoints qm sa =
     (case gradedQuestion qm sa of None \<Rightarrow> 0 | Some q \<Rightarrow> pointsForQuestion q)"

definition answerEarned :: "(string \<Rightarrow> question option) \<Rightarrow> studentAnswer \<Rightarrow> rat" where
  "answerEarned qm sa =
     (case gradedQuestion qm sa of
        None \<Rightarrow> 0
      | Some q \<Rightarrow> if isCorrect (answer sa) (correctOption q) then pointsForQuestion q else 0)"

definition answerEntry :: "(string \<Rightarrow> question option) \<Rightarrow> studentAnswer \<Rightarrow> gradedAnswer list" where
  "answerEntry qm sa =
     (case gradedQuestion qm sa of
        None \<Rightarrow> []
      | Some q \<Rightarrow>
          [\<lparr> gaQuestionId = questionId sa,
             gaStudentAnswer = answer sa,
             gaCorrectAnswer = correctOption q,
             gaIsCorrect = isCorrect (answer sa) (correctOption q),
             gaPoints = pointsForQuestion q,
             gaEarnedPoints =
               (if isCorrect (answer sa) (correctOption q) then pointsForQuestion q else 0) \<rparr>])"

definition answeredPoints :: "assignment \<Rightarrow> studentAnswer list \<Rightarrow> rat" where
  "answeredPoints a sas = sum_list (map (answerPoints (questionsMap a)) sas)"

definition correctPoints :: "assignment \<Rightarrow> studentAnswer list \<Rightarrow> rat" where
  "correctPoints a sas = sum_list (map (answerEarned (questionsMap a)) sas)"

section \<open>Example quizzes\<close>

text \<open>
  An assignment worth 100 points with two multiple-choice questions of one point each
  and a written question; a student who answers the first correctly and the second
  wrongly; an answer to the written question, an answer to no question, and a second
  answer to the first question. Then an assignment whose only question is worth -1.
\<close>

definition quizAssignment :: assignment where
  "quizAssignment =
     \<lparr> questions =
         [\<lparr> question_id = ''q1'', qType = MultipleChoice, correctOption = Some 1, points = None \<rparr>,
          \<lparr> question_id = ''q2'', qType = MultipleChoice, correctOption = Some 0, points = Some 1 \<rparr>,
          \<lparr> question_id = ''q3'', qType = Written, correctOption = None, points = Some 5 \<rparr>],
       totalPoints = 100 \<rparr>"

definition quizAnswers :: "studentAnswer list" where
  "quizAnswers =
     [\<lparr> questionId = ''q1'', answer = Number 1 \<rparr>,
      \<lparr> questionId = ''q2'', answer = Number 2 \<rparr>]"

definition writtenAnswer :: studentAnswer where
  "writtenAnswer = \<lparr> questionId = ''q3'', answer = String ''an essay'' \<rparr>"

definition strayAnswer :: studentAnswer where
  "strayAnswer = \<lparr> questionId = ''zz'', answer = Number 1 \<rparr>"




section \<open>Example submission\<close>

text \<open>A graded submission whose stored letter does not fit its percentage of 92.999.\<close>

definition staleSubmission :: submission where
  "staleSubmission =
     \<lparr> subAssignment = ''a1'', subStudent = ''s1'',
       subGrade = Some \<lparr> gradePoints = Some 46, gradePercentage = Some (92999 / 1000),
                         letterGrade = Some ''F'', gradedAt = Some 4, gradedBy = Some ''t1'' \<rparr> \<rparr>"

section \<open>The toggle in closed form\<close>

text \<open>
  The list of lecture entries after a missing entry has been pushed, and the index the
  route then toggles; the same for the module entries; the lists after the toggle; the
  number of completed lecture entries of a module entry; and the lecture entry that the
  route locates or creates.
\<close>

definition ensureLecture :: "objectId \<Rightarrow> lectureProgress list \<Rightarrow> lectureProgress list" where
  "ensureLecture lid lps =
     (case findIndex (\<lambda>lp. lectureId lp = lid) lps of
        None \<Rightarrow> lps @ [newLectureProgress lid]
      | Some j \<Rightarrow> lps)"

definition lectureIndex :: "objectId \<Rightarrow> lectureProgress list \<Rightarrow> nat" where
  "lectureIndex lid lps =
     (case findIndex (\<lambda>lp. lectureId lp = lid) lps of None \<Rightarrow> length lps | Some j \<Rightarrow> j)"

definition ensureModule ::
  "objectId \<Rightarrow> courseModule \<Rightarrow> moduleProgress list \<Rightarrow> moduleProgress list" where
  "ensureModule mid m mps =
     (case findIndex (\<lambda>mp. moduleId mp = mid) mps of
        None \<Rightarrow> mps @ [newModuleProgress mid m]
      | Some i \<Rightarrow> mps)"

definition moduleIndex :: "objectId \<Rightarrow> moduleProgress list \<Rightarrow> nat" where
  "moduleIndex mid mps =
     (case findIndex (\<lambda>mp. moduleId mp = mid) mps of None \<Rightarrow> length mps | Some i \<Rightarrow> i)"

definition toggledLectures :: "objectId \<Rightarrow> date \<Rightarrow> lectureProgress list \<Rightarrow> lectureProgress list" where
  "toggledLectures lid now lps =
     (ensureLecture lid lps)
       [lectureIndex lid lps := toggleEntry now (ensureLecture lid lps ! lectureIndex lid lps)]"

definition toggledModules ::
  "courseModule \<Rightarrow> objectId \<Rightarrow> objectId \<Rightarrow> date \<Rightarrow> moduleProgress list \<Rightarrow> moduleProgress list" where
  "toggledModules m mid lid now mps =
     (ensureModule mid m mps)
       [moduleIndex mid mps := toggleInModule lid now (ensureModule mid m mps ! moduleIndex mid mps)]"

definition completedIn :: "moduleProgress \<Rightarrow> nat" where
  "completedIn mp = length (filter lpCompleted (lecturesProgress mp))"


section \<open>Example toggles\<close>



section \<open>Valid progress documents\<close>

text \<open>
  A progress document is valid for a course when it is keyed as the data model says: its
  module entries have distinct identifiers, each the identifier of a module of the
  course, and the lecture entries of a module entry have distinct identifiers, each the
  identifier of a lecture of that module. The document may be partial or empty.
\<close>

definition validModuleProgress :: "course \<Rightarrow> moduleProgress \<Rightarrow> bool" where
  "validModuleProgress c mp =
     (case find (\<lambda>m. module_id m = moduleId mp) (modules c) of
        None \<Rightarrow> False
      | Some m \<Rightarrow>
          distinct (map lectureId (lecturesProgress mp))
          \<and> list_all (\<lambda>lp. lectureId lp \<in> set (map lecture_id (lectures m)))
                (lecturesProgress mp))"

definition validInput :: "course \<Rightarrow> progress \<Rightarrow> bool" where
  "validInput c p =
     (distinct (map moduleId (modulesProgress p))
      \<and> list_all (validModuleProgress c) (modulesProgress p))"

text \<open>The identifiers of a course are unique: modules within the course, lectures within a module.\<close>

definition courseIdsUnique :: "course \<Rightarrow> bool" where
  "courseIdsUnique c =
     (distinct (map module_id (modules c))
      \<and> list_all (\<lambda>m. distinct (map lecture_id (lectures m))) (modules c))"

section \<open>Lemmas on findIndex and the collection\<close>

lemma findIndex_None: "findIndex P xs = None \<longleftrightarrow> (\<forall>x\<in>set xs. \<not> P x)"
  by (induction xs) auto

lemma findIndex_Some:
  "findIndex P xs = Some i \<Longrightarrow> i < length xs \<and> P (xs ! i) \<and> (\<forall>k<i. \<not> P (xs ! k))"
proof (induction xs arbitrary: i)
  case Nil
  then show ?case by simp
next
  case (Cons x xs)
  show ?case
  proof (cases "P x")
    case True
    with Cons.prems show ?thesis by simp
  next
    case False
    with Cons.prems obtain j where j: "findIndex P xs = Some j" "i = Suc j"
      by auto
    from Cons.IH [OF j(1)] False j(2) show ?thesis
      by (auto simp: nth_Cons split: nat.splits)
  qed
qed

lemma findIndex_first:
  "i < length xs \<Longrightarrow> P (xs ! i) \<Longrightarrow> (\<forall>k<i. \<not> P (xs ! k)) \<Longrightarrow> findIndex P xs = Some i"
proof (induction xs arbitrary: i)
  case Nil
  then show ?case by simp
next
  case (Cons x xs)
  show ?case
  proof (cases i)
    case 0
    with Cons.prems show ?thesis by simp
  next
    case (Suc j)
    from Cons.prems Suc have "\<not> P x" by auto
    moreover from Cons.prems Suc have "findIndex P xs = Some j"
      by (intro Cons.IH) auto
    ultimately show ?thesis using Suc by simp
  qed
qed

lemma findIndex_append_new:
  "findIndex P xs = None \<Longrightarrow> P y \<Longrightarrow> findIndex P (xs @ [y]) = Some (length xs)"
  by (induction xs) (auto split: if_splits)

lemma findIndex_update:
  assumes "findIndex P xs = Some i" and "P y"
  shows "findIndex P (xs[i := y]) = Some i"
proof -
  from findIndex_Some [OF assms(1)]
  have "i < length xs" and "\<forall>k<i. \<not> P (xs ! k)" by auto
  then show ?thesis
    using assms(2) by (intro findIndex_first) auto
qed

lemma find_findIndex: "find P xs = map_option (\<lambda>i. xs ! i) (findIndex P xs)"
  by (induction xs) (auto simp: option.map_comp comp_def)

lemma findOne_save: "findOne (save db p) (userId p) (courseId p) = Some p"
proof (cases "findIndex (\<lambda>d. userId d = userId p \<and> courseId d = courseId p) db")
  case None
  then show ?thesis
    by (simp add: findOne_def save_def find_findIndex findIndex_append_new)
next
  case (Some i)
  from findIndex_Some [OF Some] have "i < length db" by simp
  with Some show ?thesis
    by (simp add: findOne_def save_def find_findIndex findIndex_update)
qed


section \<open>Lemmas on double rounding\<close>

lemma roundTiesToEven_le: "y \<le> of_int n \<Longrightarrow> roundTiesToEven y \<le> n"
proof -
  assume y: "y \<le> of_int n"
  then have f: "\<lfloor>y\<rfloor> \<le> n" by (simp add: floor_le_iff)
  show ?thesis
  proof (cases "\<lfloor>y\<rfloor> = n")
    case True
    with y have "y = of_int n"
      by (metis of_int_floor_le order_antisym)
    then show ?thesis by (simp add: roundTiesToEven_def)
  next
    case False
    with f have "\<lfloor>y\<rfloor> + 1 \<le> n" by simp
    then show ?thesis
      by (simp add: roundTiesToEven_def Let_def)
  qed
qed

lemma roundTiesToEven_ge: "of_int n \<le> y \<Longrightarrow> n \<le> roundTiesToEven y"
proof -
  assume "of_int n \<le> y"
  then have "n \<le> \<lfloor>y\<rfloor>" by (simp add: le_floor_iff)
  then show ?thesis
    by (simp add: roundTiesToEven_def Let_def)
qed

lemma powi_pos [simp]: "0 < (2::rat) powi k"
  by (simp add: power_int_def)

lemma exponentOf_upper:
  assumes "0 < x"
  shows "x < 2 powi (exponentOf x + 1)"
proof -
  obtain a b where q: "quotient_of x = (a, b)" by (cases "quotient_of x")
  then have b: "0 < b" and x: "x = of_int a / of_int b"
    by (auto dest: quotient_of_denom_pos quotient_of_div)
  with assms have a: "0 < a"
    by (simp add: zero_less_divide_iff)
  let ?k = "bitlen a - bitlen b"
  from bitlen_bounds [OF a] have "a < 2 ^ nat (bitlen a)" by simp
  then have "rat_of_int a < rat_of_int (2 ^ nat (bitlen a))"
    by (simp only: of_int_less_iff)
  then have ua: "rat_of_int a < 2 powi bitlen a"
    by (simp add: power_int_def bitlen_nonneg)
  from b have b1: "1 \<le> bitlen b"
    by (simp add: bitlen_alt_def)
  from bitlen_bounds [OF b] have "2 ^ nat (bitlen b - 1) \<le> b" by simp
  then have "rat_of_int (2 ^ nat (bitlen b - 1)) \<le> rat_of_int b"
    by (simp only: of_int_le_iff)
  then have lb: "2 powi (bitlen b - 1) \<le> rat_of_int b"
    using b1 by (simp add: power_int_def)
  have "x < 2 powi bitlen a / 2 powi (bitlen b - 1)"
    unfolding x using ua lb b a
    by (intro frac_less) simp_all
  also have "\<dots> = 2 powi (bitlen a - (bitlen b - 1))"
    by (subst power_int_diff) simp_all
  also have "bitlen a - (bitlen b - 1) = ?k + 1"
    by simp
  finally have k: "x < 2 powi (?k + 1)" .
  show ?thesis
  proof (cases "2 powi ?k \<le> x")
    case True
    with k show ?thesis by (simp add: exponentOf_def q)
  next
    case False
    then show ?thesis by (simp add: exponentOf_def q)
  qed
qed


lemma exponentOf_lower:
  assumes "0 < x"
  shows "2 powi exponentOf x \<le> x"
proof -
  obtain a b where q: "quotient_of x = (a, b)" by (cases "quotient_of x")
  then have b: "0 < b" and x: "x = of_int a / of_int b"
    by (auto dest: quotient_of_denom_pos quotient_of_div)
  with assms have a: "0 < a"
    by (simp add: zero_less_divide_iff)
  let ?k = "bitlen a - bitlen b"
  from a have a1: "1 \<le> bitlen a"
    by (simp add: bitlen_alt_def)
  from bitlen_bounds [OF a] have "2 ^ nat (bitlen a - 1) \<le> a" by simp
  then have "rat_of_int (2 ^ nat (bitlen a - 1)) \<le> rat_of_int a"
    by (simp only: of_int_le_iff)
  then have la: "2 powi (bitlen a - 1) \<le> rat_of_int a"
    using a1 by (simp add: power_int_def)
  from bitlen_bounds [OF b] have "b < 2 ^ nat (bitlen b)" by simp
  then have "rat_of_int b < rat_of_int (2 ^ nat (bitlen b))"
    by (simp only: of_int_less_iff)
  then have ub: "rat_of_int b \<le> 2 powi bitlen b"
    by (simp add: power_int_def bitlen_nonneg)
  have "(2::rat) powi (?k - 1) = 2 powi ((bitlen a - 1) - bitlen b)"
    by (simp add: algebra_simps)
  also have "\<dots> = 2 powi (bitlen a - 1) / 2 powi bitlen b"
    by (subst power_int_diff) simp_all
  also have "\<dots> \<le> x"
    unfolding x using la ub b a
    by (intro frac_le) simp_all
  finally have k: "2 powi (?k - 1) \<le> x" .
  show ?thesis
  proof (cases "2 powi ?k \<le> x")
    case True
    then show ?thesis by (simp add: exponentOf_def q)
  next
    case False
    with k show ?thesis by (simp add: exponentOf_def q)
  qed
qed

lemma toDouble_nonneg: "0 \<le> x \<Longrightarrow> 0 \<le> toDouble x"
proof -
  assume x: "0 \<le> x"
  show ?thesis
  proof (cases "x = 0")
    case True
    then show ?thesis by (simp add: toDouble_def)
  next
    case False
    with x have pos: "0 < x" by simp
    let ?u = "(2::rat) powi (exponentOf x - 52)"
    have "rat_of_int 0 \<le> x / ?u" using pos by simp
    then have "0 \<le> roundTiesToEven (x / ?u)" by (rule roundTiesToEven_ge)
    with pos show ?thesis
      by (simp add: toDouble_def Let_def)
  qed
qed

lemma toDouble_le:
  assumes pos: "0 < x" and le: "x \<le> B"
    and grid: "B / 2 powi (exponentOf x - 52) = of_int n"
  shows "toDouble x \<le> B"
proof -
  let ?u = "(2::rat) powi (exponentOf x - 52)"
  have "x / ?u \<le> B / ?u"
    using le by (simp add: divide_right_mono)
  with grid have "roundTiesToEven (x / ?u) \<le> n"
    by (intro roundTiesToEven_le) simp
  then have "?u * of_int (roundTiesToEven (x / ?u)) \<le> ?u * of_int n"
    by (simp add: mult_left_mono)
  also have "\<dots> = B"
    using grid by (simp add: field_simps)
  finally show ?thesis
    using pos by (simp add: toDouble_def Let_def)
qed


lemma exponentOf_less:
  assumes "0 < x" and "x < 2 powi k"
  shows "exponentOf x < k"
proof (rule ccontr)
  assume "\<not> exponentOf x < k"
  then have "(2::rat) powi k \<le> 2 powi exponentOf x"
    by (intro power_int_increasing) simp_all
  also have "\<dots> \<le> x"
    using assms(1) by (rule exponentOf_lower)
  finally show False
    using assms(2) by simp
qed

lemma grid_point:
  assumes "e \<le> 52"
  shows "rat_of_int m / 2 powi (e - 52) = rat_of_int (m * 2 ^ nat (52 - e))"
proof -
  have "(2::rat) powi (e - 52) = inverse (2 powi (52 - e))"
    by (simp add: power_int_minus [symmetric])
  also have "(2::rat) powi (52 - e) = 2 ^ nat (52 - e)"
    using assms by (simp add: power_int_def)
  finally show ?thesis
    by (simp add: field_simps)
qed

lemma toDouble_le_numeral:
  assumes "0 \<le> x" and "x \<le> rat_of_int m" and "rat_of_int m < 2 powi 52"
  shows "toDouble x \<le> rat_of_int m"
proof (cases "x = 0")
  case True
  with assms show ?thesis by (simp add: toDouble_def)
next
  case False
  with assms have pos: "0 < x" by simp
  from assms have "x < 2 powi 52" by simp
  with pos have "exponentOf x < 52" by (rule exponentOf_less)
  then have "rat_of_int m / 2 powi (exponentOf x - 52)
               = rat_of_int (m * 2 ^ nat (52 - exponentOf x))"
    by (intro grid_point) simp
  with pos assms(2) show ?thesis by (rule toDouble_le)
qed

lemma percentage_in_range:
  assumes "c \<le> t" and "0 < (t::nat)"
  shows "0 \<le> Math_round (jsTimes (jsDivide (rat_of_nat c) (rat_of_nat t)) 100)"
    and "Math_round (jsTimes (jsDivide (rat_of_nat c) (rat_of_nat t)) 100) \<le> 100"
proof -
  let ?q = "toDouble (rat_of_nat c / rat_of_nat t)"
  let ?y = "toDouble (?q * 100)"
  have js: "jsTimes (jsDivide (rat_of_nat c) (rat_of_nat t)) 100 = ?y"
    by (simp add: jsTimes_def jsDivide_def)
  have q0: "0 \<le> ?q"
    by (intro toDouble_nonneg) simp
  have "rat_of_nat c / rat_of_nat t \<le> rat_of_int 1"
    using assms by (simp add: divide_le_eq_1)
  then have q1: "?q \<le> rat_of_int 1"
    by (intro toDouble_le_numeral) (simp_all add: power_int_def)
  have y0: "0 \<le> ?y"
    using q0 by (intro toDouble_nonneg) simp
  have "?q * 100 \<le> rat_of_int 100"
    using q1 by simp
  then have y1: "?y \<le> rat_of_int 100"
    using q0 by (intro toDouble_le_numeral) (simp_all add: power_int_def)
  from y0 show "0 \<le> Math_round (jsTimes (jsDivide (rat_of_nat c) (rat_of_nat t)) 100)"
    unfolding js by (simp add: Math_round_def)
  from y1 have "?y + 1 / 2 < 101" by simp
  then show "Math_round (jsTimes (jsDivide (rat_of_nat c) (rat_of_nat t)) 100) \<le> 100"
    unfolding js by (simp add: Math_round_def floor_le_iff)
qed

section \<open>Lemmas on the counters\<close>

lemma foldl_add_length:
  "foldl (\<lambda>t m. t + length (f m)) a ms = a + sum_list (map (\<lambda>m. length (f m)) ms)"
  by (induction ms arbitrary: a) simp_all

lemma foldl_count_completed:
  "foldl (\<lambda>n lp. if P lp then n + 1 else n) a lps = a + length (filter P lps)"
  by (induction lps arbitrary: a) simp_all

lemma foldl_count_modules:
  "foldl (\<lambda>k mp. foldl (\<lambda>n lp. if P lp then n + 1 else n) k (g mp)) a mps
     = a + sum_list (map (\<lambda>mp. length (filter P (g mp))) mps)"
  by (induction mps arbitrary: a) (simp_all add: foldl_count_completed)

lemma countTotalLectures_sum: "countTotalLectures c = lectureTotal c"
  by (simp add: countTotalLectures_def lectureTotal_def foldl_add_length)

lemma countCompletedLectures_sum: "countCompletedLectures p = completedEntries p"
  by (simp add: countCompletedLectures_def completedEntries_def foldl_count_modules)

lemma Math_round_nearest: "Math_round x = round x"
  by (simp add: Math_round_def round_def)

lemma stats_total [simp]:
  "stTotalLecturesCount (calculateProgressStats c p now) = lectureTotal c"
  by (simp add: calculateProgressStats_def Let_def countTotalLectures_sum)

lemma stats_completed_count [simp]:
  "stCompletedLecturesCount (calculateProgressStats c p now) = completedEntries p"
  by (simp add: calculateProgressStats_def Let_def countCompletedLectures_sum)

lemma stats_percentage:
  "stProgressPercentage (calculateProgressStats c p now) =
     (if lectureTotal c = 0 then 0
      else Math_round (jsTimes (jsDivide (rat_of_nat (completedEntries p))
                                         (rat_of_nat (lectureTotal c))) 100))"
  by (simp add: calculateProgressStats_def Let_def countTotalLectures_sum
      countCompletedLectures_sum)

lemma stats_completed_flag:
  "stCompleted (calculateProgressStats c p now) =
     (lectureTotal c > 0 \<and> completedEntries p = lectureTotal c)"
  by (simp add: calculateProgressStats_def Let_def countTotalLectures_sum
      countCompletedLectures_sum)

lemma stats_completedAt:
  "stCompletedAt (calculateProgressStats c p now) =
     (if lectureTotal c > 0 \<and> completedEntries p = lectureTotal c then Some now else None)"
  by (simp add: calculateProgressStats_def Let_def countTotalLectures_sum
      countCompletedLectures_sum)

section \<open>Progress percentage\<close>

lemma example_counts:
  "lectureTotal exampleCourse = 8" "completedEntries exampleProgress = 1"
  by (simp_all add: lectureTotal_def completedEntries_def exampleCourse_def exampleProgress_def)

lemma forty_counts:
  "lectureTotal fortyLectureCourse = 40" "completedEntries twentyThreeCompleted = 23"
  by (simp_all add: lectureTotal_def completedEntries_def fortyLectureCourse_def
      twentyThreeCompleted_def numberedLectures_def comp_def)

lemma double_23_40:
  "jsDivide 23 40 = 2589569785738035 / 4503599627370496"
  "jsTimes (2589569785738035 / 4503599627370496) 100 = 8092405580431359 / 140737488355328"
  by code_simp+

text \<open>
  C2. Both counters are as the claim says: the sum of the lecture counts of the course's
  modules, and the number of lecture entries of the document with \<open>completed\<close> set. The
  percentage is \<open>Math.round\<close> of the double \<open>(completed / total) * 100\<close>, and the quotient
  is rounded before it is scaled. For 23 completed lectures of 40 the exact percentage is
  57.5, which rounds to 58; the double nearest to 23/40 lies below it, its product with
  100 is the double 57.49999999999999289 and the code returns 57.
\<close>

theorem calculateProgressStats_half_rounds_down:
  "stTotalLecturesCount (calculateProgressStats fortyLectureCourse twentyThreeCompleted 2) = 40
   \<and> stCompletedLecturesCount
        (calculateProgressStats fortyLectureCourse twentyThreeCompleted 2) = 23
   \<and> 100 * (23::rat) / 40 = 115 / 2
   \<and> round (100 * (23::rat) / 40) = 58
   \<and> jsTimes (jsDivide 23 40) 100 = 8092405580431359 / 140737488355328
   \<and> (8092405580431359 / 140737488355328 :: rat) < 115 / 2
   \<and> stProgressPercentage
        (calculateProgressStats fortyLectureCourse twentyThreeCompleted 2) = 57"
proof -
  have "round (100 * (23::rat) / 40) = 58"
    by (simp add: round_def floor_eq_iff)
  moreover have "Math_round (8092405580431359 / 140737488355328) = 57"
    by (simp add: Math_round_def floor_eq_iff)
  ultimately show ?thesis
    by (simp add: stats_percentage forty_counts double_23_40)
qed

section \<open>Completion timestamp of the statistics\<close>

lemma stats_ignore_cached:
  "calculateProgressStats c (p\<lparr> completedLecturesCount := n, totalLecturesCount := t,
       progressPercentage := pc, completed := b, completedAt := d \<rparr>) now
   = calculateProgressStats c p now"
  by (simp add: calculateProgressStats_def countCompletedLectures_def)

text \<open>
  C6, as the code has it. The \<open>completedAt\<close> returned by \<open>calculateProgressStats\<close> is
  the current time exactly when the computed \<open>completed\<close> flag is true, and null
  otherwise; the flag depends on the two counters only, and neither field depends on the
  \<open>completed\<close> or \<open>completedAt\<close> already stored in the document. So a document that was
  complete before and is still complete gets a fresh timestamp: the counterexample has
  such a document, stamped 3, whose statistics at time 9 carry the timestamp 9.
\<close>

theorem calculateProgressStats_completedAt:
  "stCompletedAt (calculateProgressStats c p now) =
     (if stCompleted (calculateProgressStats c p now) then Some now else None)
   \<and> stCompleted (calculateProgressStats c p now) =
     (lectureTotal c > 0 \<and> completedEntries p = lectureTotal c)
   \<and> calculateProgressStats c (p\<lparr> completed := b, completedAt := d \<rparr>) now
       = calculateProgressStats c p now"
proof -
  have "calculateProgressStats c (p\<lparr> completed := b, completedAt := d \<rparr>) now
          = calculateProgressStats c p now"
    by (simp add: calculateProgressStats_def countCompletedLectures_def)
  then show ?thesis
    by (simp add: stats_completed_flag stats_completedAt)
qed

lemma completed_example_counts:
  "lectureTotal oneLectureCourse = 1" "completedEntries completedProgress = 1"
  by (simp_all add: lectureTotal_def completedEntries_def oneLectureCourse_def
      completedProgress_def)

theorem calculateProgressStats_completedAt_witness:
  "stCompletedAt (calculateProgressStats oneLectureCourse completedProgress 9) = Some 9
   \<and> stCompletedAt (calculateProgressStats exampleCourse exampleProgress 7) = None"
  using calculateProgressStats_completedAt [of oneLectureCourse completedProgress 9 None True]
    calculateProgressStats_completedAt [of exampleCourse exampleProgress 7 None True]
  by (simp add: example_counts completed_example_counts)

theorem completedAt_refreshed_counterexample:
  "completed completedProgress
   \<and> completedAt completedProgress = Some 3
   \<and> stCompleted (calculateProgressStats oneLectureCourse completedProgress 9)
   \<and> stCompletedAt (calculateProgressStats oneLectureCourse completedProgress 9) = Some 9"
  by (simp add: completedProgress_def oneLectureCourse_def stats_completed_flag
      stats_completedAt lectureTotal_def completedEntries_def)

section \<open>Seeding a progress document\<close>

lemma initializeProgress_fields:
  "fst (initializeProgress db c uid cid) =
     \<lparr> userId = uid, courseId = cid,
       modulesProgress = map (\<lambda>m. newModuleProgress (module_id m) m) (modules c),
       completedLecturesCount = 0, totalLecturesCount = lectureTotal c,
       progressPercentage = 0, completed = False, completedAt = None \<rparr>"
  by (simp add: initializeProgress_def Let_def lectureTotal_def foldl_add_length)

lemma initializeProgress_store:
  "snd (initializeProgress db c uid cid) = save db (fst (initializeProgress db c uid cid))"
  by (simp add: initializeProgress_def Let_def)

lemma mirror_lectures:
  "list_all2 (\<lambda>lp lec. lectureId lp = lecture_id lec \<and> \<not> lpCompleted lp \<and> lpCompletedAt lp = None)
     (map (\<lambda>lec. newLectureProgress (lecture_id lec)) ls) ls"
  by (induction ls) (simp_all add: newLectureProgress_def)

lemma mirror_modules:
  "list_all2 (\<lambda>mp m. moduleId mp = module_id m \<and> \<not> mpCompleted mp \<and> mpCompletedAt mp = None
       \<and> list_all2 (\<lambda>lp lec. lectureId lp = lecture_id lec \<and> \<not> lpCompleted lp
                                 \<and> lpCompletedAt lp = None)
            (lecturesProgress mp) (lectures m))
     (map (\<lambda>m. newModuleProgress (module_id m) m) ms) ms"
  by (induction ms) (simp_all add: newModuleProgress_def mirror_lectures)

text \<open>
  C9, as the code has it. For a (user, course) key with no progress document, the seeding
  builds a mirror of the course (one module entry per module, one lecture entry per
  lecture, in order, every \<open>completed\<close> false and every \<open>completedAt\<close> null) and saves
  it under the key with \<open>completedLecturesCount\<close> 0, \<open>progressPercentage\<close> 0,
  \<open>completed\<close> false and \<open>completedAt\<close> null; \<open>totalLecturesCount\<close> is not zeroed but
  set to the number of lectures of the course (8 for the example course).
\<close>

theorem initializeProgress_seed:
  assumes "findOne db uid cid = None"
    and "getOrCreateProgress db c uid cid = (p, db')"
  shows "list_all2 (\<lambda>mp m. moduleId mp = module_id m \<and> \<not> mpCompleted mp
              \<and> mpCompletedAt mp = None
              \<and> list_all2 (\<lambda>lp lec. lectureId lp = lecture_id lec \<and> \<not> lpCompleted lp
                                        \<and> lpCompletedAt lp = None)
                   (lecturesProgress mp) (lectures m))
           (modulesProgress p) (modules c)
       \<and> userId p = uid \<and> courseId p = cid
       \<and> completedLecturesCount p = 0
       \<and> totalLecturesCount p = lectureTotal c
       \<and> progressPercentage p = 0
       \<and> \<not> completed p
       \<and> completedAt p = None
       \<and> findOne db' uid cid = Some p"
proof -
  from assms have eq: "initializeProgress db c uid cid = (p, db')"
    by (simp add: getOrCreateProgress_def)
  then have p: "p = fst (initializeProgress db c uid cid)" by simp
  from eq have d: "db' = save db p"
    by (auto simp: initializeProgress_def Let_def)
  have ids: "userId p = uid" "courseId p = cid"
    by (simp_all add: p initializeProgress_fields)
  have "findOne db' uid cid = Some p"
    unfolding d using findOne_save [of db p] by (simp add: ids)
  then show ?thesis
    by (simp add: p initializeProgress_fields mirror_modules)
qed

theorem initializeProgress_total_counterexample:
  "findOne [] ''u'' ''c'' = None
   \<and> totalLecturesCount (fst (getOrCreateProgress [] exampleCourse ''u'' ''c'')) = 8
   \<and> totalLecturesCount (fst (getOrCreateProgress [] exampleCourse ''u'' ''c'')) \<noteq> 0"
  by (simp add: findOne_def getOrCreateProgress_def initializeProgress_fields example_counts)

theorem initializeProgress_seed_witness:
  "findOne [] ''u'' ''c'' = None
   \<and> totalLecturesCount (fst (getOrCreateProgress [] oneLectureCourse ''u'' ''c'')) = 1
   \<and> modulesProgress (fst (getOrCreateProgress [] oneLectureCourse ''u'' ''c'')) =
        [\<lparr> moduleId = ''m'', mpCompleted = False, mpCompletedAt = None,
            lecturesProgress =
              [\<lparr> lectureId = ''a'', lpCompleted = False, lpCompletedAt = None \<rparr>] \<rparr>]
   \<and> findOne (snd (getOrCreateProgress [] oneLectureCourse ''u'' ''c'')) ''u'' ''c''
        = Some (fst (getOrCreateProgress [] oneLectureCourse ''u'' ''c''))"
  using initializeProgress_seed [of "[]" "''u''" "''c''" oneLectureCourse
      "fst (getOrCreateProgress [] oneLectureCourse ''u'' ''c'')"
      "snd (getOrCreateProgress [] oneLectureCourse ''u'' ''c'')"]
  by (simp add: findOne_def getOrCreateProgress_def initializeProgress_fields
      initializeProgress_store save_def
      oneLectureCourse_def lectureTotal_def newModuleProgress_def newLectureProgress_def)

section \<open>The grading loop in closed form\<close>

lemma gradeAnswer_step:
  "gradeAnswer qm st sa =
     \<lparr> totalQuestionPoints = totalQuestionPoints st + answerPoints qm sa,
       earnedQuestionPoints = earnedQuestionPoints st + answerEarned qm sa,
       gradedAnswers = gradedAnswers st @ answerEntry qm sa \<rparr>"
  by (simp add: gradeAnswer_def answerPoints_def answerEarned_def answerEntry_def
      gradedQuestion_def Let_def split: option.splits)

lemma gradeAnswer_fields:
  "totalQuestionPoints (gradeAnswer qm st sa) = totalQuestionPoints st + answerPoints qm sa"
  "earnedQuestionPoints (gradeAnswer qm st sa) = earnedQuestionPoints st + answerEarned qm sa"
  "gradedAnswers (gradeAnswer qm st sa) = gradedAnswers st @ answerEntry qm sa"
  by (simp_all add: gradeAnswer_step)

lemma foldl_gradeAnswer:
  "foldl (gradeAnswer qm) st sas =
     \<lparr> totalQuestionPoints = totalQuestionPoints st + sum_list (map (answerPoints qm) sas),
       earnedQuestionPoints = earnedQuestionPoints st + sum_list (map (answerEarned qm) sas),
       gradedAnswers = gradedAnswers st @ concat (map (answerEntry qm) sas) \<rparr>"
proof (induction sas arbitrary: st)
  case Nil
  show ?case by simp
next
  case (Cons sa sas)
  have "foldl (gradeAnswer qm) st (sa # sas) = foldl (gradeAnswer qm) (gradeAnswer qm st sa) sas"
    by simp
  also have "\<dots> =
     \<lparr> totalQuestionPoints =
         totalQuestionPoints (gradeAnswer qm st sa) + sum_list (map (answerPoints qm) sas),
       earnedQuestionPoints =
         earnedQuestionPoints (gradeAnswer qm st sa) + sum_list (map (answerEarned qm) sas),
       gradedAnswers =
         gradedAnswers (gradeAnswer qm st sa) @ concat (map (answerEntry qm) sas) \<rparr>"
    by (rule Cons.IH)
  finally show ?case
    by (simp add: gradeAnswer_fields add.assoc)
qed

lemma gradeAll_closed:
  "gradeAll a sas =
     \<lparr> totalQuestionPoints = answeredPoints a sas,
       earnedQuestionPoints = correctPoints a sas,
       gradedAnswers = concat (map (answerEntry (questionsMap a)) sas) \<rparr>"
  by (simp add: gradeAll_def foldl_gradeAnswer initialGrading_def answeredPoints_def
      correctPoints_def)

lemma quizAssignment_map:
  "questionsMap quizAssignment ''q1'' = Some (questions quizAssignment ! 0)"
  "questionsMap quizAssignment ''q2'' = Some (questions quizAssignment ! 1)"
  "questionsMap quizAssignment ''q3'' = Some (questions quizAssignment ! 2)"
  "questionsMap quizAssignment ''zz'' = None"
  by (simp_all add: questionsMap_def quizAssignment_def)



section \<open>Scores of autoGradeQuiz\<close>





section \<open>Answers that are not graded\<close>

text \<open>
  C3. An answer whose \<open>questionId\<close> matches no question of the assignment, or whose
  question is not multiple-choice, leaves the three variables of the loop as they are:
  grading a list with such an answer anywhere in it gives the same totals, the same
  \<open>gradedAnswers\<close> and the same result as grading the list without it. The function has
  no error path.
\<close>

theorem autoGradeQuiz_skips:
  assumes "questionsMap a (questionId sa) = None
           \<or> (\<exists>q. questionsMap a (questionId sa) = Some q \<and> qType q \<noteq> MultipleChoice)"
  shows "gradeAnswer (questionsMap a) st sa = st
       \<and> gradeAll a (xs @ sa # ys) = gradeAll a (xs @ ys)
       \<and> autoGradeQuiz a (xs @ sa # ys) = autoGradeQuiz a (xs @ ys)"
proof -
  from assms have g: "gradedQuestion (questionsMap a) sa = None"
    by (auto simp: gradedQuestion_def)
  have step: "gradeAnswer (questionsMap a) st sa = st"
    by (simp add: gradeAnswer_step answerPoints_def answerEarned_def answerEntry_def g)
  have all: "gradeAll a (xs @ sa # ys) = gradeAll a (xs @ ys)"
    by (simp add: gradeAll_closed answeredPoints_def correctPoints_def
        answerPoints_def answerEarned_def answerEntry_def g)
  then have "autoGradeQuiz a (xs @ sa # ys) = autoGradeQuiz a (xs @ ys)"
    by (simp add: autoGradeQuiz_def)
  with step all show ?thesis by simp
qed

theorem autoGradeQuiz_skips_witness:
  "questionsMap quizAssignment (questionId strayAnswer) = None
   \<and> autoGradeQuiz quizAssignment (quizAnswers @ strayAnswer # [writtenAnswer])
       = autoGradeQuiz quizAssignment (quizAnswers @ [writtenAnswer])
   \<and> qType (questions quizAssignment ! 2) = Written
   \<and> autoGradeQuiz quizAssignment (quizAnswers @ writtenAnswer # [])
       = autoGradeQuiz quizAssignment (quizAnswers @ [])
   \<and> length (grGradedAnswers (autoGradeQuiz quizAssignment (quizAnswers @ [])))
       = 2"
  using autoGradeQuiz_skips [of quizAssignment strayAnswer initialGrading quizAnswers "[writtenAnswer]"]
    autoGradeQuiz_skips [of quizAssignment writtenAnswer initialGrading quizAnswers "[]"]
  by (simp add: quizAssignment_map strayAnswer_def writtenAnswer_def,
      simp add: quizAssignment_def autoGradeQuiz_def Let_def gradeAll_closed answerEntry_def
        gradedQuestion_def quizAnswers_def questionsMap_def)

section \<open>Several answers to one question\<close>






section \<open>Letter grade of a saved submission\<close>

lemma getLetterGrade_table: "getLetterGrade p = firstMatch letterThresholds p"
  by (simp add: getLetterGrade_def letterThresholds_def)

lemma preSaveLetterGrade_set:
  "subGrade s = Some g \<Longrightarrow> gradePercentage g = Some p \<Longrightarrow>
   preSaveLetterGrade s = s\<lparr> subGrade := Some (g\<lparr> letterGrade := Some (getLetterGrade p) \<rparr>) \<rparr>"
  by (simp add: preSaveLetterGrade_def getLetterGrade_def)

text \<open>
  C4. When a submission whose grade has a percentage is saved, the hook overwrites
  \<open>grade.letterGrade\<close> with the letter of the percentage, whatever letter the grade
  carried before: the first bound of the table 97 A+, 93 A, 90 A-, 87 B+, 83 B, 80 B-,
  77 C+, 73 C, 70 C-, 67 D+, 60 D that the percentage reaches, and F below 60. The
  helper \<open>getLetterGrade\<close> of the routes is the same mapping. So 92.999 and 90 map to
  A-, and 59.9 maps to F.
\<close>

theorem preSaveLetterGrade_derived:
  assumes "subGrade s = Some g" and "gradePercentage g = Some p"
  shows "subGrade (preSaveLetterGrade s)
           = Some (g\<lparr> letterGrade := Some (firstMatch letterThresholds p) \<rparr>)
       \<and> preSaveLetterGrade (s\<lparr> subGrade := Some (g\<lparr> letterGrade := l \<rparr>) \<rparr>)
           = preSaveLetterGrade s
       \<and> getLetterGrade p = firstMatch letterThresholds p
       \<and> (p < 60 \<longrightarrow> firstMatch letterThresholds p = ''F'')
       \<and> firstMatch letterThresholds (92999 / 1000) = ''A-''
       \<and> firstMatch letterThresholds 90 = ''A-''
       \<and> firstMatch letterThresholds (599 / 10) = ''F''"
proof -
  have a: "subGrade (preSaveLetterGrade s)
           = Some (g\<lparr> letterGrade := Some (firstMatch letterThresholds p) \<rparr>)"
    using assms by (simp add: preSaveLetterGrade_set getLetterGrade_table)
  have b: "preSaveLetterGrade (s\<lparr> subGrade := Some (g\<lparr> letterGrade := l \<rparr>) \<rparr>)
           = preSaveLetterGrade s"
    using assms
    by (simp add: preSaveLetterGrade_set [of s g p]
        preSaveLetterGrade_set [of "s\<lparr> subGrade := Some (g\<lparr> letterGrade := l \<rparr>) \<rparr>"
          "g\<lparr> letterGrade := l \<rparr>" p])
  have c: "p < 60 \<longrightarrow> firstMatch letterThresholds p = ''F''"
    by (simp add: letterThresholds_def)
  have d: "firstMatch letterThresholds (92999 / 1000) = ''A-''"
    "firstMatch letterThresholds 90 = ''A-''"
    "firstMatch letterThresholds (599 / 10) = ''F''"
    by (simp_all add: letterThresholds_def)
  from a b c d show ?thesis
    by (simp add: getLetterGrade_table)
qed

theorem preSaveLetterGrade_derived_witness:
  "map_option letterGrade (subGrade staleSubmission) = Some (Some ''F'')
   \<and> map_option gradePercentage (subGrade staleSubmission) = Some (Some (92999 / 1000))
   \<and> map_option letterGrade (subGrade (preSaveLetterGrade staleSubmission)) = Some (Some ''A-'')"
  using preSaveLetterGrade_derived [of staleSubmission
      "\<lparr> gradePoints = Some 46, gradePercentage = Some (92999 / 1000),
         letterGrade = Some ''F'', gradedAt = Some 4, gradedBy = Some ''t1'' \<rparr>"
      "92999 / 1000" None]
  by (simp add: staleSubmission_def)

section \<open>Lemmas on the toggle\<close>

lemma toggleInModule_eq:
  "toggleInModule lid now mp =
     mp\<lparr> lecturesProgress := toggledLectures lid now (lecturesProgress mp),
         mpCompleted := list_all lpCompleted (toggledLectures lid now (lecturesProgress mp)),
         mpCompletedAt :=
           (if list_all lpCompleted (toggledLectures lid now (lecturesProgress mp))
            then Some now else None) \<rparr>"
  by (simp add: toggleInModule_def toggledLectures_def ensureLecture_def lectureIndex_def
      Let_def split: option.splits)

lemma ensureLecture_index:
  "findIndex (\<lambda>lp. lectureId lp = lid) (ensureLecture lid lps) = Some (lectureIndex lid lps)"
  by (simp add: ensureLecture_def lectureIndex_def findIndex_append_new newLectureProgress_def
      split: option.splits)

lemma toggleEntry_id [simp]: "lectureId (toggleEntry now lp) = lectureId lp"
  by (simp add: toggleEntry_def)










lemma toggleInModule_id [simp]: "moduleId (toggleInModule lid now mp) = moduleId mp"
  by (simp add: toggleInModule_eq)

lemma toggleInModule_lectures [simp]:
  "lecturesProgress (toggleInModule lid now mp) = toggledLectures lid now (lecturesProgress mp)"
  by (simp add: toggleInModule_eq)


lemma toggleLecture_modules:
  "modulesProgress (toggleLecture c m mid lid now p) = toggledModules m mid lid now (modulesProgress p)"
  by (simp add: toggleLecture_def toggledModules_def ensureModule_def moduleIndex_def Let_def
      split: option.splits)

lemma toggleLecture_eq:
  "toggleLecture c m mid lid now p =
     (let p' = p\<lparr> modulesProgress := toggledModules m mid lid now (modulesProgress p) \<rparr>;
          stats = calculateProgressStats c p' now
      in p'\<lparr> completedLecturesCount := stCompletedLecturesCount stats,
             totalLecturesCount := stTotalLecturesCount stats,
             progressPercentage := stProgressPercentage stats,
             completed := stCompleted stats,
             completedAt := stCompletedAt stats \<rparr>)"
  by (simp add: toggleLecture_def toggledModules_def ensureModule_def moduleIndex_def Let_def
      split: option.splits)

lemma ensureModule_index:
  "findIndex (\<lambda>mp. moduleId mp = mid) (ensureModule mid m mps) = Some (moduleIndex mid mps)"
  by (simp add: ensureModule_def moduleIndex_def findIndex_append_new newModuleProgress_def
      split: option.splits)





lemma completedEntries_alt: "completedEntries p = sum_list (map completedIn (modulesProgress p))"
  by (simp add: completedEntries_def completedIn_def [abs_def])



lemma toggleLecture_count:
  "completedLecturesCount (toggleLecture c m mid lid now p)
     = sum_list (map completedIn (toggledModules m mid lid now (modulesProgress p)))"
  by (simp add: toggleLecture_eq Let_def completedEntries_alt)


lemma toggleLecture_keys [simp]:
  "userId (toggleLecture c m mid lid now p) = userId p"
  "courseId (toggleLecture c m mid lid now p) = courseId p"
  by (simp_all add: toggleLecture_eq Let_def)

















section \<open>Range of the progress percentage\<close>

lemma sum_list_remdups_le:
  fixes h :: "'a \<Rightarrow> nat"
  shows "sum_list (map h (remdups xs)) \<le> sum_list (map h xs)"
  by (induction xs) auto

lemma sum_set_le_sum_list:
  fixes h :: "'a \<Rightarrow> nat"
  shows "sum h (set xs) \<le> sum_list (map h xs)"
proof -
  have "sum h (set xs) = sum_list (map h (remdups xs))"
    by (simp add: sum.distinct_set_conv_list [symmetric])
  then show ?thesis
    by (simp add: sum_list_remdups_le)
qed

lemma sum_list_injection:
  fixes g :: "'a \<Rightarrow> nat" and h :: "'b \<Rightarrow> nat"
  assumes d: "distinct (map key ps)"
    and f: "\<And>p. p \<in> set ps \<Longrightarrow> f p \<in> set ms \<and> key' (f p) = key p \<and> g p \<le> h (f p)"
  shows "sum_list (map g ps) \<le> sum_list (map h ms)"
proof -
  from d have dp: "distinct ps" and inj: "inj_on key (set ps)"
    by (simp_all add: distinct_map)
  have injf: "inj_on f (set ps)"
  proof (rule inj_onI)
    fix p q assume "p \<in> set ps" "q \<in> set ps" "f p = f q"
    with f [of p] f [of q] have "key p = key q" by metis
    with inj \<open>p \<in> set ps\<close> \<open>q \<in> set ps\<close> show "p = q" by (auto dest: inj_onD)
  qed
  have "sum_list (map g ps) = sum g (set ps)"
    using dp by (simp add: sum.distinct_set_conv_list)
  also have "\<dots> \<le> sum (\<lambda>p. h (f p)) (set ps)"
    by (rule sum_mono) (simp add: f)
  also have "\<dots> = sum h (f ` set ps)"
    using injf by (simp add: sum.reindex)
  also have "\<dots> \<le> sum h (set ms)"
    by (rule sum_mono2) (use f in auto)
  also have "\<dots> \<le> sum_list (map h ms)"
    by (rule sum_set_le_sum_list)
  finally show ?thesis .
qed

lemma validModuleProgress_bound:
  assumes "validModuleProgress c mp"
  obtains m where "find (\<lambda>m. module_id m = moduleId mp) (modules c) = Some m"
    and "length (lecturesProgress mp) \<le> length (lectures m)"
proof -
  from assms obtain m where m: "find (\<lambda>m. module_id m = moduleId mp) (modules c) = Some m"
    and d: "distinct (map lectureId (lecturesProgress mp))"
    and sub: "set (map lectureId (lecturesProgress mp)) \<subseteq> set (map lecture_id (lectures m))"
    by (auto simp: validModuleProgress_def list_all_iff split: option.splits)
  have "length (lecturesProgress mp) = card (set (map lectureId (lecturesProgress mp)))"
    using d by (metis distinct_card length_map)
  also have "\<dots> \<le> card (set (map lecture_id (lectures m)))"
    using sub by (intro card_mono) auto
  also have "\<dots> \<le> length (lectures m)"
    by (metis card_length length_map)
  finally have "length (lecturesProgress mp) \<le> length (lectures m)" .
  with m show ?thesis by (rule that)
qed

lemma valid_completed_le_total:
  assumes "validInput c p"
  shows "completedEntries p \<le> lectureTotal c"
proof -
  define f where "f mp = the (find (\<lambda>m. module_id m = moduleId mp) (modules c))"
    for mp :: moduleProgress
  have f: "f mp \<in> set (modules c) \<and> module_id (f mp) = moduleId mp
           \<and> length (filter lpCompleted (lecturesProgress mp)) \<le> length (lectures (f mp))"
    if "mp \<in> set (modulesProgress p)" for mp
  proof -
    from that assms have "validModuleProgress c mp"
      by (simp add: validInput_def list_all_iff)
    then obtain m where m: "find (\<lambda>m. module_id m = moduleId mp) (modules c) = Some m"
      and len: "length (lecturesProgress mp) \<le> length (lectures m)"
      by (rule validModuleProgress_bound)
    have "length (filter lpCompleted (lecturesProgress mp)) \<le> length (lectures m)"
      using len by (rule le_trans [OF length_filter_le])
    moreover from m have "f mp = m"
      by (simp add: f_def)
    moreover from m have "m \<in> set (modules c)" "module_id m = moduleId mp"
      by (auto simp: find_Some_iff)
    ultimately show ?thesis
      by simp
  qed
  from assms have d: "distinct (map moduleId (modulesProgress p))"
    by (simp add: validInput_def)
  show ?thesis
    unfolding completedEntries_def lectureTotal_def
    by (rule sum_list_injection [where key = moduleId and key' = module_id and f = f, OF d f])
qed

text \<open>
  C5. For a course and a progress document valid for it, the number of completed
  lecture entries is at most the number of lectures of the course, and the percentage
  returned by \<open>calculateProgressStats\<close> is an integer between 0 and 100. It is the
  rounded \<open>100 * completed / total\<close> except where the double arithmetic brings an exact
  half below the half: the document with 23 of 40 lectures completed is valid and gets
  57, not 58.
\<close>

theorem calculateProgressStats_range:
  assumes "validInput c p"
  shows "0 \<le> stProgressPercentage (calculateProgressStats c p now)
       \<and> stProgressPercentage (calculateProgressStats c p now) \<le> 100
       \<and> completedEntries p \<le> lectureTotal c"
proof -
  from assms have le: "completedEntries p \<le> lectureTotal c"
    by (rule valid_completed_le_total)
  show ?thesis
  proof (cases "lectureTotal c = 0")
    case True
    with le show ?thesis by (simp add: stats_percentage)
  next
    case False
    then have "0 < lectureTotal c" by simp
    from percentage_in_range [OF le this] le False show ?thesis
      by (simp add: stats_percentage)
  qed
qed

lemma forty_valid: "validInput fortyLectureCourse twentyThreeCompleted"
  by code_simp

theorem calculateProgressStats_range_witness:
  "validInput fortyLectureCourse twentyThreeCompleted
   \<and> stProgressPercentage
        (calculateProgressStats fortyLectureCourse twentyThreeCompleted 2) = 57
   \<and> round (100 * rat_of_nat (completedEntries twentyThreeCompleted)
                / rat_of_nat (lectureTotal fortyLectureCourse)) = 58"
proof -
  have "Math_round (8092405580431359 / 140737488355328) = 57"
    by (simp add: Math_round_def floor_eq_iff)
  moreover have "round (100 * (23::rat) / 40) = 58"
    by (simp add: round_def floor_eq_iff)
  ultimately show ?thesis
    using calculateProgressStats_range [OF forty_valid, of 2]
    by (simp add: forty_valid stats_percentage forty_counts double_23_40)
qed

section \<open>The routes keep progress documents valid\<close>

text \<open>
  For a course with unique identifiers, the seeded document is valid and a toggle that
  passes the route's two checks keeps a document valid; both leave the cached
  \<open>completedLecturesCount\<close> equal to the number of completed lecture entries.
\<close>

lemma find_distinct_key:
  "distinct (map key xs) \<Longrightarrow> x \<in> set xs \<Longrightarrow> find (\<lambda>y. key y = key x) xs = Some x"
  by (induction xs) (auto simp: rev_image_eqI)

lemma newModuleProgress_valid:
  assumes "courseIdsUnique c" and "find (\<lambda>m'. module_id m' = mid) (modules c) = Some m"
  shows "validModuleProgress c (newModuleProgress mid m)"
proof -
  from assms(2) have "m \<in> set (modules c)"
    by (auto simp: find_Some_iff)
  with assms(1) have "distinct (map lecture_id (lectures m))"
    by (simp add: courseIdsUnique_def list_all_iff)
  then show ?thesis
    using assms(2)
    by (simp add: validModuleProgress_def newModuleProgress_def newLectureProgress_def
        comp_def list_all_iff)
qed

lemma initializeProgress_valid:
  assumes "courseIdsUnique c"
  shows "validInput c (fst (initializeProgress db c uid cid))"
proof -
  from assms have d: "distinct (map module_id (modules c))"
    by (simp add: courseIdsUnique_def)
  have "validModuleProgress c (newModuleProgress (module_id m) m)" if "m \<in> set (modules c)" for m
    using assms find_distinct_key [OF d that] by (rule newModuleProgress_valid)
  then show ?thesis
    using d
    by (simp add: validInput_def initializeProgress_fields comp_def list_all_iff
        newModuleProgress_def)
qed

lemma map_lectureId_toggled:
  "map lectureId (toggledLectures lid now lps) = map lectureId (ensureLecture lid lps)"
  using findIndex_Some [OF ensureLecture_index [of lid lps]]
  by (simp add: toggledLectures_def map_update) (metis list_update_id map_update)

lemma map_lectureId_ensure:
  "map lectureId (ensureLecture lid lps) =
     (if lid \<in> set (map lectureId lps) then map lectureId lps else map lectureId lps @ [lid])"
proof (cases "findIndex (\<lambda>lp. lectureId lp = lid) lps")
  case None
  then have "lid \<notin> set (map lectureId lps)"
    by (auto simp: findIndex_None)
  with None show ?thesis
    by (simp add: ensureLecture_def newLectureProgress_def)
next
  case (Some j)
  from findIndex_Some [OF Some] have "lid \<in> set (map lectureId lps)"
    by (auto simp: in_set_conv_nth intro!: image_eqI [where x = "lps ! j"])
  with Some show ?thesis
    by (simp add: ensureLecture_def)
qed

lemma validModuleProgress_ids:
  "validModuleProgress c mp \<longleftrightarrow>
     (\<exists>m. find (\<lambda>m'. module_id m' = moduleId mp) (modules c) = Some m
        \<and> distinct (map lectureId (lecturesProgress mp))
        \<and> set (map lectureId (lecturesProgress mp)) \<subseteq> set (map lecture_id (lectures m)))"
  by (auto simp: validModuleProgress_def list_all_iff split: option.splits)

lemma toggleInModule_valid:
  assumes v: "validModuleProgress c mp"
    and m: "find (\<lambda>m'. module_id m' = moduleId mp) (modules c) = Some m"
    and l: "lid \<in> set (map lecture_id (lectures m))"
  shows "validModuleProgress c (toggleInModule lid now mp)"
proof -
  from v m have d: "distinct (map lectureId (lecturesProgress mp))"
    and sub: "set (map lectureId (lecturesProgress mp)) \<subseteq> set (map lecture_id (lectures m))"
    by (simp_all add: validModuleProgress_ids)
  have "distinct (map lectureId (ensureLecture lid (lecturesProgress mp)))"
    using d by (simp add: map_lectureId_ensure)
  moreover have "set (map lectureId (ensureLecture lid (lecturesProgress mp)))
                   \<subseteq> set (map lecture_id (lectures m))"
    using sub l by (simp add: map_lectureId_ensure)
  ultimately show ?thesis
    using m by (simp add: validModuleProgress_ids map_lectureId_toggled)
qed

lemma map_moduleId_toggled:
  "map moduleId (toggledModules m mid lid now mps) = map moduleId (ensureModule mid m mps)"
  using findIndex_Some [OF ensureModule_index [of mid m mps]]
  by (simp add: toggledModules_def map_update) (metis list_update_id map_update)

lemma map_moduleId_ensure:
  "map moduleId (ensureModule mid m mps) =
     (if mid \<in> set (map moduleId mps) then map moduleId mps else map moduleId mps @ [mid])"
proof (cases "findIndex (\<lambda>mp. moduleId mp = mid) mps")
  case None
  then have "mid \<notin> set (map moduleId mps)"
    by (auto simp: findIndex_None)
  with None show ?thesis
    by (simp add: ensureModule_def newModuleProgress_def)
next
  case (Some i)
  from findIndex_Some [OF Some] have "mid \<in> set (map moduleId mps)"
    by (auto simp: in_set_conv_nth intro!: image_eqI [where x = "mps ! i"])
  with Some show ?thesis
    by (simp add: ensureModule_def)
qed

lemma ensureModule_valid:
  assumes "courseIdsUnique c" and "find (\<lambda>m'. module_id m' = mid) (modules c) = Some m"
    and "list_all (validModuleProgress c) mps"
  shows "list_all (validModuleProgress c) (ensureModule mid m mps)"
  using assms newModuleProgress_valid [OF assms(1,2)]
  by (simp add: ensureModule_def split: option.splits)

lemma toggleLecture_valid:
  assumes u: "courseIdsUnique c" and v: "validInput c p"
    and mi: "findIndex (\<lambda>m. module_id m = mid) (modules c) = Some mi"
    and li: "findIndex (\<lambda>lec. lecture_id lec = lid) (lectures (modules c ! mi)) = Some li"
  shows "validInput c (toggleLecture c (modules c ! mi) mid lid now p)"
proof -
  let ?m = "modules c ! mi"
  let ?mps = "modulesProgress p"
  let ?ens = "ensureModule mid ?m ?mps"
  let ?i = "moduleIndex mid ?mps"
  from mi have m: "find (\<lambda>m'. module_id m' = mid) (modules c) = Some ?m"
    by (simp add: find_findIndex)
  from findIndex_Some [OF li] have l: "lid \<in> set (map lecture_id (lectures ?m))"
    by (auto simp: in_set_conv_nth intro!: image_eqI [where x = "lectures ?m ! li"])
  from v have d: "distinct (map moduleId ?mps)" and all: "list_all (validModuleProgress c) ?mps"
    by (simp_all add: validInput_def)
  have ens: "list_all (validModuleProgress c) ?ens"
    using u m all by (rule ensureModule_valid)
  from findIndex_Some [OF ensureModule_index [of mid ?m ?mps]]
  have i: "?i < length ?ens" and id: "moduleId (?ens ! ?i) = mid"
    by simp_all
  from ens i have "validModuleProgress c (?ens ! ?i)"
    by (simp add: list_all_length)
  then have "validModuleProgress c (toggleInModule lid now (?ens ! ?i))"
    using m l by (intro toggleInModule_valid [where m = ?m]) (simp_all add: id)
  with ens have "list_all (validModuleProgress c) (toggledModules ?m mid lid now ?mps)"
    by (auto simp: toggledModules_def list_all_iff dest!: set_update_subset_insert [THEN subsetD])
  moreover have "distinct (map moduleId (toggledModules ?m mid lid now ?mps))"
    using d by (simp add: map_moduleId_toggled map_moduleId_ensure)
  ultimately show ?thesis
    by (simp add: validInput_def toggleLecture_modules)
qed

lemma toggleLecture_count_invariant:
  "completedLecturesCount (toggleLecture c m mid lid now p)
     = completedEntries (toggleLecture c m mid lid now p)"
  by (simp add: toggleLecture_count completedEntries_alt toggleLecture_modules)

lemma initializeProgress_count_invariant:
  "completedLecturesCount (fst (initializeProgress db c uid cid))
     = completedEntries (fst (initializeProgress db c uid cid))"
  by (simp add: initializeProgress_fields completedEntries_def newModuleProgress_def
      newLectureProgress_def comp_def)

end
